theory Spec2Isabelle
  imports Complex_Main "HOL-Library.Log_Nat"
begin

section \<open>Data model\<close>

text \<open>
  The bookstore keeps two reactive stores in memory: the book catalog
  (\<^verbatim>\<open>src/stores/books.ts\<close>) and the sales store with its draft sale
  (\<^verbatim>\<open>src/stores/sales.ts\<close>). Both talk to a hosted database through a client
  library that is not part of the repository.

  JavaScript has one numeric type, the IEEE double. Stock counts and quantities are
  integer columns of the schema and are modelled as \<^typ>\<open>int\<close>; prices and the other
  money amounts are rationals (\<^typ>\<open>rat\<close>), and the product \<^verbatim>\<open>price * quantity\<close> of the
  source is \<open>price * of_int quantity\<close>. The stores are first defined with exact
  operations on these amounts, which is enough wherever two evaluations of one and the
  same expression are compared. The total of the draft is also defined with every
  operation rounded as the machine rounds it (section on the arithmetic of doubles); the
  statement about its formula is made of that definition.
\<close>

subsection \<open>Rows of the database (lib/supabase)\<close>

record Book =
  book_id :: string
  book_title :: string
  book_author :: string
  book_isbn :: string
  book_genre :: string
  book_price :: rat
  book_stock :: int
  book_description :: "string option"
  book_created_at :: "string option"
  book_updated_at :: "string option"

text \<open>
  \<^verbatim>\<open>AppBook extends Book\<close>: the in-memory book. Of the added fields only \<^verbatim>\<open>quantity\<close>
  and \<^verbatim>\<open>dateAdded\<close> are ever set by the store (in \<^verbatim>\<open>mapToAppBook\<close>); the optional
  \<^verbatim>\<open>cost\<close>, \<^verbatim>\<open>publishedYear\<close>, \<^verbatim>\<open>condition\<close> and \<^verbatim>\<open>location\<close> stay undefined there and
  are left out.
\<close>

record AppBook = Book +
  book_quantity :: int
  book_dateAdded :: "string option"

record DBSale =
  dbs_id :: string
  dbs_customer_id :: "string option"
  dbs_total :: rat
  dbs_subtotal :: rat
  dbs_tax :: rat
  dbs_discount :: rat
  dbs_payment_method :: string
  dbs_status :: string
  dbs_created_at :: "string option"
  dbs_updated_at :: "string option"

subsection \<open>The sales store's types\<close>

datatype payment_method = cash | card | digital

record AppSaleItem =
  bookId :: string
  title :: string
  author :: string
  price :: rat
  quantity :: int
  subtotal :: rat

record AppSale =
  sale_id :: string
  sale_customerId :: "string option"
  sale_customerName :: "string option"
  sale_total :: rat
  sale_subtotal :: rat
  sale_tax :: rat
  sale_discount :: rat
  sale_paymentMethod :: payment_method
  sale_status :: string
  sale_items :: "AppSaleItem list"
  sale_time :: string
  sale_date :: string
  sale_notes :: "string option"
  sale_created_at :: "string option"
  sale_updated_at :: "string option"

text \<open>The draft sale, \<^verbatim>\<open>currentSale\<close>.\<close>

record draft =
  items :: "AppSaleItem list"
  customerId :: "string option"
  customerName :: "string option"
  paymentMethod :: payment_method
  discount :: rat
  saleNotes :: "string option"

text \<open>The payloads \<^verbatim>\<open>completeSale\<close> sends: the sale header and one row per line.\<close>

record SaleInsert =
  ins_customer_id :: "string option"
  ins_total :: rat
  ins_subtotal :: rat
  ins_tax :: rat
  ins_discount :: rat
  ins_payment_method :: payment_method
  ins_status :: string

record SaleItemRow =
  row_sale_id :: string
  row_book_id :: string
  row_quantity :: int
  row_unit_price :: rat
  row_total_price :: rat

subsection \<open>Errors\<close>

text \<open>
  The stores throw plain \<^verbatim>\<open>Error\<close> objects that differ only in their message, and pass
  on the error objects of the database client. The messages are Spanish sentences, named
  here by constructors:
  \<^item> \<open>LibroNoDisponibleOStockInsuficiente\<close>: "Libro no disponible o stock insuficiente";
  \<^item> \<open>VentaSinArticulos\<close>: "No se puede completar la venta sin articulos";
  \<^item> \<open>ErrorAlActualizarLibro\<close>: "Error al actualizar libro";
  \<^item> \<open>ElIsbnYaExiste\<close>: "El ISBN ya existe. Por favor ingrese un ISBN unico o deje el
    campo vacio.";
  \<^item> \<open>SinPermisosParaActualizar\<close>: "No tienes permisos para actualizar libros.";
  \<^item> \<open>ErrorAlActualizarStock\<close>: "Error al actualizar stock";
  \<^item> \<open>ErrorCompletingSale\<close>: "Error completing sale";
  \<^item> \<open>Text s\<close>: the message \<open>s\<close> of an error object of the database client.
\<close>

datatype message =
    LibroNoDisponibleOStockInsuficiente
  | VentaSinArticulos
  | ErrorAlActualizarLibro
  | ElIsbnYaExiste
  | SinPermisosParaActualizar
  | ErrorAlActualizarStock
  | ErrorCompletingSale
  | Text string

text \<open>
  An error object of the database client. Whether it is an instance of \<^verbatim>\<open>Error\<close> depends
  on the version of the client library, so it is a field of the model.
\<close>

record pg_error =
  pg_code :: string
  pg_message :: string
  pg_instanceof_Error :: bool

datatype thrown = Error message | Postgrest pg_error

text \<open>\<^verbatim>\<open>err instanceof Error ? err.message : fallback\<close>\<close>

fun message_or :: "message \<Rightarrow> thrown \<Rightarrow> message" where
  "message_or fallback (Error m) = m"
| "message_or fallback (Postgrest e) =
     (if pg_instanceof_Error e then Text (pg_message e) else fallback)"

subsection \<open>The stores and the world\<close>

record books_store =
  books :: "AppBook list"
  books_loading :: bool
  books_error :: "message option"

record sales_store =
  sales :: "AppSale list"
  loading :: bool
  error :: "message option"
  currentSale :: draft

text \<open>
  The world is the two stores and the state \<open>'db\<close> of the remote database, which the
  model threads through every request.
\<close>

record 'db world =
  booksStore :: books_store
  salesStore :: sales_store
  remote :: 'db

section \<open>Array helpers\<close>

text \<open>
  \<^verbatim>\<open>Array.prototype.find\<close> is \<^const>\<open>find\<close>. An object found by \<^verbatim>\<open>find\<close> and mutated
  in place is the first matching element of the array, changed where it stands;
  \<^verbatim>\<open>findIndex\<close> followed by \<^verbatim>\<open>splice(index, 1)\<close> or by \<^verbatim>\<open>a[index] = v\<close> removes or
  replaces the first matching element.
\<close>

fun modify_first :: "('a \<Rightarrow> bool) \<Rightarrow> ('a \<Rightarrow> 'a) \<Rightarrow> 'a list \<Rightarrow> 'a list" where
  "modify_first P f [] = []"
| "modify_first P f (x # xs) = (if P x then f x # xs else x # modify_first P f xs)"

fun remove_first :: "('a \<Rightarrow> bool) \<Rightarrow> 'a list \<Rightarrow> 'a list" where
  "remove_first P [] = []"
| "remove_first P (x # xs) = (if P x then xs else x # remove_first P xs)"

section \<open>The book catalog store\<close>

definition getBookById :: "'db world \<Rightarrow> string \<Rightarrow> AppBook option" where
  "getBookById w i = find (\<lambda>book. book_id book = i) (books (booksStore w))"

section \<open>The draft sale\<close>

definition cart :: "'db world \<Rightarrow> AppSaleItem list" where
  "cart w = items (currentSale (salesStore w))"

definition set_cart :: "AppSaleItem list \<Rightarrow> 'db world \<Rightarrow> 'db world" where
  "set_cart xs w =
     w\<lparr>salesStore := (salesStore w)\<lparr>currentSale := (currentSale (salesStore w))\<lparr>items := xs\<rparr>\<rparr>\<rparr>"

text \<open>
  \<^verbatim>\<open>currentSaleSubtotal\<close>: \<^verbatim>\<open>items.reduce((sum, item) => sum + item.subtotal, 0)\<close>.
\<close>

definition currentSaleSubtotal :: "'db world \<Rightarrow> rat" where
  "currentSaleSubtotal w = foldl (\<lambda>sum item. sum + subtotal item) 0 (cart w)"

definition currentSaleTotal :: "'db world \<Rightarrow> rat" where
  "currentSaleTotal w =
     (let subtotal = currentSaleSubtotal w;
          discountAmount = (subtotal * discount (currentSale (salesStore w))) / 100;
          tax = subtotal * 0.08
      in subtotal - discountAmount + tax)"

text \<open>
  \<^verbatim>\<open>addItemToCurrentSale(bookId, quantity = 1)\<close>. The result is the thrown error or
  \<open>()\<close>, together with the world after the call.
\<close>

definition addItemToCurrentSale ::
  "string \<Rightarrow> int \<Rightarrow> 'db world \<Rightarrow> (thrown + unit) \<times> 'db world" where
  "addItemToCurrentSale bid qty w =
     (case getBookById w bid of
        None \<Rightarrow> (Inl (Error LibroNoDisponibleOStockInsuficiente), w)
      | Some book \<Rightarrow>
          if book_stock book < qty
          then (Inl (Error LibroNoDisponibleOStockInsuficiente), w)
          else
            (case find (\<lambda>item. bookId item = bid) (cart w) of
               Some existingItem \<Rightarrow>
                 (Inr (),
                  set_cart
                    (modify_first (\<lambda>item. bookId item = bid)
                       (\<lambda>item. item\<lparr>quantity := quantity item + qty,
                                      subtotal := price item * of_int (quantity item + qty)\<rparr>)
                       (cart w)) w)
             | None \<Rightarrow>
                 (Inr (),
                  set_cart
                    (cart w @
                       [\<lparr>bookId = bid, title = book_title book, author = book_author book,
                         price = book_price book, quantity = qty,
                         subtotal = book_price book * of_int qty\<rparr>]) w)))"

definition removeItemFromCurrentSale :: "string \<Rightarrow> 'db world \<Rightarrow> 'db world" where
  "removeItemFromCurrentSale bid w =
     set_cart (remove_first (\<lambda>item. bookId item = bid) (cart w)) w"

definition updateItemQuantity :: "string \<Rightarrow> int \<Rightarrow> 'db world \<Rightarrow> 'db world" where
  "updateItemQuantity bid qty w =
     (case find (\<lambda>item. bookId item = bid) (cart w) of
        None \<Rightarrow> w
      | Some item \<Rightarrow>
          if qty \<le> 0 then removeItemFromCurrentSale bid w
          else set_cart
                 (modify_first (\<lambda>item. bookId item = bid)
                    (\<lambda>item. item\<lparr>quantity := qty, subtotal := price item * of_int qty\<rparr>)
                    (cart w)) w)"

definition setDiscount :: "rat \<Rightarrow> 'db world \<Rightarrow> 'db world" where
  "setDiscount d w =
     w\<lparr>salesStore := (salesStore w)\<lparr>currentSale :=
         (currentSale (salesStore w))\<lparr>discount := max 0 (min 100 d)\<rparr>\<rparr>\<rparr>"

definition empty_draft :: draft where
  "empty_draft = \<lparr>items = [], customerId = None, customerName = None,
                  paymentMethod = cash, discount = 0, saleNotes = None\<rparr>"

definition clearCurrentSale :: "'db world \<Rightarrow> 'db world" where
  "clearCurrentSale w = w\<lparr>salesStore := (salesStore w)\<lparr>currentSale := empty_draft\<rparr>\<rparr>"

section \<open>The arithmetic of doubles\<close>

text \<open>
  A double has a significand of 53 bits. The result of an arithmetic operation on doubles
  is the exact result rounded to the nearest number with such a significand, ties going
  to the even significand. \<open>fl\<close> is this rounding on the rationals: for \<open>x \<noteq> 0\<close> with
  \<open>2 ^ k \<le> \<bar>x\<bar> < 2 ^ (k + 1)\<close> it rounds \<open>\<bar>x\<bar> / 2 ^ (k - 52)\<close> to an integer and scales
  back. It is the rounding of binary64 for every result whose magnitude is in the normal
  range, from \<open>2 ^ -1022\<close> up to the largest double; overflow to infinity, subnormal
  results and NaN are not modelled.
\<close>











section \<open>The database client\<close>

text \<open>
  The client library is outside the repository, so the three requests the checkout
  issues are parameters of the model. Each takes the state of the remote database and
  returns the response with the new state:
  \<^item> \<open>insert_sales\<close>: \<^verbatim>\<open>from('sales').insert([saleInsert]).select().single()\<close>;
  \<^item> \<open>insert_sale_items\<close>: \<^verbatim>\<open>from('sale_items').insert(itemsRows)\<close>, answering with
    the error, if any;
  \<^item> \<open>update_books\<close>: \<^verbatim>\<open>from('books').update({stock}).eq('id', id).select().single()\<close>.
\<close>

record 'db backend =
  insert_sales :: "SaleInsert \<Rightarrow> 'db \<Rightarrow> (pg_error + DBSale) \<times> 'db"
  insert_sale_items :: "SaleItemRow list \<Rightarrow> 'db \<Rightarrow> pg_error option \<times> 'db"
  update_books :: "string \<Rightarrow> int \<Rightarrow> 'db \<Rightarrow> (pg_error + Book) \<times> 'db"

text \<open>
  A database that answers a successful update with the row it was asked to write: the
  row of the requested id, carrying the requested stock.
\<close>

definition returns_updated_row :: "'db backend \<Rightarrow> bool" where
  "returns_updated_row be \<longleftrightarrow>
     (\<forall>i s db row db'. update_books be i s db = (Inr row, db') \<longrightarrow>
        book_id row = i \<and> book_stock row = s)"

section \<open>Updating a book and its stock\<close>

text \<open>\<^verbatim>\<open>book.created_at?.split('T')[0]\<close>\<close>

definition mapToAppBook :: "Book \<Rightarrow> AppBook" where
  "mapToAppBook book =
     \<lparr>book_id = book_id book, book_title = book_title book, book_author = book_author book,
      book_isbn = book_isbn book, book_genre = book_genre book, book_price = book_price book,
      book_stock = book_stock book, book_description = book_description book,
      book_created_at = book_created_at book, book_updated_at = book_updated_at book,
      book_quantity = book_stock book,
      book_dateAdded = map_option (takeWhile (\<lambda>c. c \<noteq> CHR ''T'')) (book_created_at book)\<rparr>"

text \<open>
  The test \<^verbatim>\<open>/row-level security|permission denied/i.test(message)\<close>: one of the two
  phrases occurs in the message, letter case ignored.
\<close>

definition lower_ascii :: "char \<Rightarrow> char" where
  "lower_ascii c =
     (let n = (of_char c :: nat) in if 65 \<le> n \<and> n \<le> 90 then char_of (n + 32) else c)"

fun occurs_in :: "string \<Rightarrow> string \<Rightarrow> bool" where
  "occurs_in p [] = (p = [])"
| "occurs_in p (c # cs) = (take (length p) (c # cs) = p \<or> occurs_in p cs)"

definition permission_denied_re :: "string \<Rightarrow> bool" where
  "permission_denied_re m =
     (occurs_in ''row-level security'' (map lower_ascii m) \<or>
      occurs_in ''permission denied'' (map lower_ascii m))"

definition updateBook_friendly :: "pg_error \<Rightarrow> message" where
  "updateBook_friendly e =
     (if pg_code e = ''23505'' then ElIsbnYaExiste
      else if pg_code e = ''42501'' \<or> permission_denied_re (pg_message e)
      then SinPermisosParaActualizar
      else ErrorAlActualizarLibro)"

text \<open>
  \<^verbatim>\<open>updateBook(id, { stock: newStock })\<close>, the one patch the checkout sends.
  \<^verbatim>\<open>mapToSupabaseBook\<close> leaves it as it is.
\<close>

definition updateBook ::
  "'db backend \<Rightarrow> string \<Rightarrow> int \<Rightarrow> 'db world \<Rightarrow> (thrown + AppBook) \<times> 'db world" where
  "updateBook be i newStock w =
     (let bs = (booksStore w)\<lparr>books_loading := True, books_error := None\<rparr> in
      case update_books be i newStock (remote w) of
        (Inl supabaseError, db') \<Rightarrow>
          (let friendly = updateBook_friendly supabaseError in
           (Inl (Error friendly),
            w\<lparr>booksStore := bs\<lparr>books_error := Some friendly, books_loading := False\<rparr>,
              remote := db'\<rparr>))
      | (Inr data, db') \<Rightarrow>
          (let updatedBook = mapToAppBook data in
           (Inr updatedBook,
            w\<lparr>booksStore :=
                 bs\<lparr>books := modify_first (\<lambda>book. book_id book = i) (\<lambda>_. updatedBook) (books bs),
                    books_loading := False\<rparr>,
              remote := db'\<rparr>)))"

definition updateStock ::
  "'db backend \<Rightarrow> string \<Rightarrow> int \<Rightarrow> 'db world \<Rightarrow> (thrown + unit) \<times> 'db world" where
  "updateStock be i qty w =
     (case find (\<lambda>book. book_id book = i) (books (booksStore w)) of
        None \<Rightarrow> (Inr (), w)
      | Some book \<Rightarrow>
          (let newStock = max 0 (book_stock book + qty) in
           case updateBook be i newStock w of
             (Inl err, w') \<Rightarrow>
               (Inl err,
                w'\<lparr>booksStore := (booksStore w')
                     \<lparr>books_error := Some (message_or ErrorAlActualizarStock err)\<rparr>\<rparr>)
           | (Inr _, w') \<Rightarrow> (Inr (), w')))"

section \<open>Completing the sale\<close>

text \<open>
  The loop \<^verbatim>\<open>for (const item of currentSale.value.items) await
  booksStore.updateStock(item.bookId, -item.quantity)\<close>: it stops at the first call that
  throws.
\<close>

fun updateStocks ::
  "'db backend \<Rightarrow> AppSaleItem list \<Rightarrow> 'db world \<Rightarrow> (thrown + unit) \<times> 'db world" where
  "updateStocks be [] w = (Inr (), w)"
| "updateStocks be (item # rest) w =
     (case updateStock be (bookId item) (- quantity item) w of
        (Inl err, w') \<Rightarrow> (Inl err, w')
      | (Inr _, w') \<Rightarrow> updateStocks be rest w')"

text \<open>The \<^verbatim>\<open>catch\<close> and \<^verbatim>\<open>finally\<close> blocks of \<^verbatim>\<open>completeSale\<close>.\<close>

definition completeSale_catch :: "thrown \<Rightarrow> 'db world \<Rightarrow> (thrown + AppSale) \<times> 'db world" where
  "completeSale_catch err w =
     (Inl err,
      w\<lparr>salesStore := (salesStore w)
           \<lparr>error := Some (message_or ErrorCompletingSale err), loading := False\<rparr>\<rparr>)"

text \<open>\<^verbatim>\<open>currentSale.value.customerId || null\<close>\<close>

definition customer_id_or_null :: "string option \<Rightarrow> string option" where
  "customer_id_or_null c = (case c of None \<Rightarrow> None | Some s \<Rightarrow> if s = [] then None else Some s)"

definition itemsRows_of :: "DBSale \<Rightarrow> AppSaleItem list \<Rightarrow> SaleItemRow list" where
  "itemsRows_of saleRow its =
     map (\<lambda>it. \<lparr>row_sale_id = dbs_id saleRow, row_book_id = bookId it,
                 row_quantity = quantity it, row_unit_price = price it,
                 row_total_price = subtotal it\<rparr>) its"

text \<open>
  \<^verbatim>\<open>completeSale()\<close>. The clock reading \<^verbatim>\<open>now\<close> enters as the two strings made from it,
  \<^verbatim>\<open>now.toTimeString().split(' ')[0]\<close> and \<^verbatim>\<open>formatYYYYMMDDLocal(now)\<close>. The check for an
  empty draft throws before the \<^verbatim>\<open>try\<close>, so neither flag is touched there. The
  function is asynchronous; the model runs it from call to return, with no other action
  of the stores between its requests.
\<close>

definition completeSale ::
  "'db backend \<Rightarrow> string \<Rightarrow> string \<Rightarrow> 'db world \<Rightarrow> (thrown + AppSale) \<times> 'db world" where
  "completeSale be time_now date_now w =
     (if length (cart w) = 0 then (Inl (Error VentaSinArticulos), w)
      else
        (let w1 = w\<lparr>salesStore := (salesStore w)\<lparr>loading := True, error := None\<rparr>\<rparr>;
             subtotal = currentSaleSubtotal w1;
             discountAmount = (subtotal * discount (currentSale (salesStore w1))) / 100;
             tax = subtotal * 0.08;
             total = subtotal - discountAmount + tax;
             saleInsert =
               \<lparr>ins_customer_id = customer_id_or_null (customerId (currentSale (salesStore w1))),
                ins_total = total, ins_subtotal = subtotal, ins_tax = tax,
                ins_discount = discount (currentSale (salesStore w1)),
                ins_payment_method = paymentMethod (currentSale (salesStore w1)),
                ins_status = ''completed''\<rparr>
         in case insert_sales be saleInsert (remote w1) of
              (Inl saleErr, db1) \<Rightarrow> completeSale_catch (Postgrest saleErr) (w1\<lparr>remote := db1\<rparr>)
            | (Inr saleRow, db1) \<Rightarrow>
                (let itemsRows = itemsRows_of saleRow (cart w1) in
                 case (if length itemsRows > 0
                       then insert_sale_items be itemsRows db1 else (None, db1)) of
                   (Some itemsErr, db2) \<Rightarrow>
                     completeSale_catch (Postgrest itemsErr) (w1\<lparr>remote := db2\<rparr>)
                 | (None, db2) \<Rightarrow>
                     (case updateStocks be (cart w1) (w1\<lparr>remote := db2\<rparr>) of
                        (Inl err, w3) \<Rightarrow> completeSale_catch err w3
                      | (Inr _, w3) \<Rightarrow>
                          (let cs = currentSale (salesStore w3);
                               newSale =
                                 \<lparr>sale_id = dbs_id saleRow,
                                  sale_customerId = customerId cs,
                                  sale_customerName = customerName cs,
                                  sale_total = total, sale_subtotal = subtotal, sale_tax = tax,
                                  sale_discount = discount cs,
                                  sale_paymentMethod = paymentMethod cs,
                                  sale_status = ''completed'',
                                  sale_items = items cs,
                                  sale_time = time_now, sale_date = date_now,
                                  sale_notes = saleNotes cs,
                                  sale_created_at = dbs_created_at saleRow,
                                  sale_updated_at = dbs_updated_at saleRow\<rparr>
                           in (Inr newSale,
                               w3\<lparr>salesStore := (salesStore w3)
                                    \<lparr>sales := newSale # sales (salesStore w3),
                                     currentSale := empty_draft,
                                     loading := False\<rparr>\<rparr>))))))"

text \<open>
  The header row \<^verbatim>\<open>saleInsert\<close> that \<^verbatim>\<open>completeSale\<close> builds from the draft, as a
  function of the world at the call.
\<close>

definition saleInsert :: "'db world \<Rightarrow> SaleInsert" where
  "saleInsert w =
     (let subtotal = currentSaleSubtotal w;
          discountAmount = (subtotal * discount (currentSale (salesStore w))) / 100;
          tax = subtotal * 0.08;
          total = subtotal - discountAmount + tax
      in \<lparr>ins_customer_id = customer_id_or_null (customerId (currentSale (salesStore w))),
          ins_total = total, ins_subtotal = subtotal, ins_tax = tax,
          ins_discount = discount (currentSale (salesStore w)),
          ins_payment_method = paymentMethod (currentSale (salesStore w)),
          ins_status = ''completed''\<rparr>)"

section \<open>Sequences of cart operations\<close>

text \<open>
  A run of the draft sale: the three cart operations, interleaved with arbitrary changes
  of the catalog (books loaded, edited, sold or deleted in between). A call of
  \<^verbatim>\<open>addItemToCurrentSale\<close> that throws leaves the world as it returns it.
\<close>

datatype event =
    AddItem string int
  | RemoveItem string
  | SetQuantity string int
  | CatalogChange "AppBook list"

fun apply_event :: "event \<Rightarrow> 'db world \<Rightarrow> 'db world" where
  "apply_event (AddItem bid qty) w = snd (addItemToCurrentSale bid qty w)"
| "apply_event (RemoveItem bid) w = removeItemFromCurrentSale bid w"
| "apply_event (SetQuantity bid qty) w = updateItemQuantity bid qty w"
| "apply_event (CatalogChange bs) w = w\<lparr>booksStore := (booksStore w)\<lparr>books := bs\<rparr>\<rparr>"

fun run_events :: "event list \<Rightarrow> 'db world \<Rightarrow> 'db world" where
  "run_events [] w = w"
| "run_events (e # es) w = run_events es (apply_event e w)"

section \<open>Example worlds\<close>

text \<open>
  An example database: the three tables, and a switch that makes every request fail when
  the database cannot be reached. Inserting a sale returns the new row with a fresh id;
  updating the stock of a book returns the updated row, or an error when no row has the
  id.
\<close>

record shop_db =
  db_online :: bool
  db_books :: "Book list"
  db_sales :: "DBSale list"
  db_sale_items :: "SaleItemRow list"

definition fetch_failed :: pg_error where
  "fetch_failed = \<lparr>pg_code = [], pg_message = ''Failed to fetch'', pg_instanceof_Error = False\<rparr>"

definition no_rows :: pg_error where
  "no_rows = \<lparr>pg_code = ''PGRST116'', pg_message = ''The result contains 0 rows'',
              pg_instanceof_Error = False\<rparr>"

definition payment_method_name :: "payment_method \<Rightarrow> string" where
  "payment_method_name m = (case m of cash \<Rightarrow> ''cash'' | card \<Rightarrow> ''card'' | digital \<Rightarrow> ''digital'')"

definition shop_backend :: "shop_db backend" where
  "shop_backend =
     \<lparr>insert_sales = (\<lambda>ins db.
        if \<not> db_online db then (Inl fetch_failed, db)
        else (let row = \<lparr>dbs_id = replicate (Suc (length (db_sales db))) CHR ''S'',
                          dbs_customer_id = ins_customer_id ins, dbs_total = ins_total ins,
                          dbs_subtotal = ins_subtotal ins, dbs_tax = ins_tax ins,
                          dbs_discount = ins_discount ins,
                          dbs_payment_method = payment_method_name (ins_payment_method ins),
                          dbs_status = ins_status ins,
                          dbs_created_at = Some ''2024-05-01T10:15:00'',
                          dbs_updated_at = Some ''2024-05-01T10:15:00''\<rparr>
              in (Inr row, db\<lparr>db_sales := db_sales db @ [row]\<rparr>))),
      insert_sale_items = (\<lambda>rows db.
        if \<not> db_online db then (Some fetch_failed, db)
        else (None, db\<lparr>db_sale_items := db_sale_items db @ rows\<rparr>)),
      update_books = (\<lambda>i s db.
        if \<not> db_online db then (Inl fetch_failed, db)
        else (case find (\<lambda>r. book_id r = i) (db_books db) of
                None \<Rightarrow> (Inl no_rows, db)
              | Some r \<Rightarrow>
                  (Inr (r\<lparr>book_stock := s\<rparr>),
                   db\<lparr>db_books := modify_first (\<lambda>r. book_id r = i)
                                      (\<lambda>r. r\<lparr>book_stock := s\<rparr>) (db_books db)\<rparr>)))\<rparr>"

text \<open>
  A catalog of two books, B1 with one copy at 10.00 and B2 with three copies at 12.50,
  an empty draft and no sales.
\<close>

definition row1 :: Book where
  "row1 =
     \<lparr>book_id = ''B1'', book_title = ''Ficciones'', book_author = ''Borges'',
      book_isbn = ''111'', book_genre = ''Cuentos'', book_price = 10, book_stock = 1,
      book_description = None, book_created_at = None, book_updated_at = None\<rparr>"

definition row2 :: Book where
  "row2 =
     \<lparr>book_id = ''B2'', book_title = ''Rayuela'', book_author = ''Cortazar'',
      book_isbn = ''222'', book_genre = ''Novela'', book_price = 25 / 2, book_stock = 3,
      book_description = None, book_created_at = None, book_updated_at = None\<rparr>"

definition book1 :: AppBook where
  "book1 = mapToAppBook row1"

definition book2 :: AppBook where
  "book2 = mapToAppBook row2"

definition shop :: "shop_db world" where
  "shop =
     \<lparr>booksStore = \<lparr>books = [book1, book2], books_loading = False, books_error = None\<rparr>,
      salesStore = \<lparr>sales = [], loading = False, error = None, currentSale = empty_draft\<rparr>,
      remote = \<lparr>db_online = True, db_books = [row1, row2], db_sales = [],
                db_sale_items = []\<rparr>\<rparr>"

text \<open>The scenario of the specification: one line of three copies at 10.00, discount 10.\<close>

definition line_B1_x3 :: AppSaleItem where
  "line_B1_x3 =
     \<lparr>bookId = ''B1'', title = ''Ficciones'', author = ''Borges'', price = 10,
      quantity = 3, subtotal = 30\<rparr>"

definition shop_discounted :: "shop_db world" where
  "shop_discounted =
     shop\<lparr>salesStore := (salesStore shop)
            \<lparr>currentSale := empty_draft\<lparr>items := [line_B1_x3], discount := 10\<rparr>\<rparr>\<rparr>"



text \<open>
  A draft whose line for B2 was taken when the book cost 9.00; the catalog lists it at
  12.50 by now.
\<close>

definition line_B2_old :: AppSaleItem where
  "line_B2_old =
     \<lparr>bookId = ''B2'', title = ''Rayuela'', author = ''Cortazar'', price = 9,
      quantity = 1, subtotal = 9\<rparr>"

definition shop_repriced :: "shop_db world" where
  "shop_repriced =
     shop\<lparr>salesStore := (salesStore shop)
            \<lparr>currentSale := empty_draft\<lparr>items := [line_B2_old, line_B1_x3]\<rparr>\<rparr>\<rparr>"

text \<open>The same draft when the database cannot be reached.\<close>

definition shop_offline :: "shop_db world" where
  "shop_offline = shop_repriced\<lparr>remote := (remote shop_repriced)\<lparr>db_online := False\<rparr>\<rparr>"

text \<open>
  A draft with a line for a book B9 that has left the catalog since it was added, alone
  and together with a line for B2.
\<close>

definition line_B9 :: AppSaleItem where
  "line_B9 =
     \<lparr>bookId = ''B9'', title = ''El Aleph'', author = ''Borges'', price = 5,
      quantity = 2, subtotal = 10\<rparr>"

definition shop_ghost :: "shop_db world" where
  "shop_ghost =
     shop\<lparr>salesStore := (salesStore shop)\<lparr>currentSale := empty_draft\<lparr>items := [line_B9]\<rparr>\<rparr>\<rparr>"

definition shop_ghost_mixed :: "shop_db world" where
  "shop_ghost_mixed =
     shop\<lparr>salesStore := (salesStore shop)
            \<lparr>currentSale := empty_draft\<lparr>items := [line_B9, line_B2_old]\<rparr>\<rparr>\<rparr>"

text \<open>Every \<^verbatim>\<open>addItem\<close> of the run asks for a positive quantity.\<close>

fun positive_adds :: "event list \<Rightarrow> bool" where
  "positive_adds [] = True"
| "positive_adds (AddItem bid qty # es) = (0 < qty \<and> positive_adds es)"
| "positive_adds (e # es) = positive_adds es"

section \<open>Basic facts\<close>

lemma cart_set_cart: "cart (set_cart xs w) = xs"
  by (simp add: cart_def set_cart_def)

lemma cart_catalog_change: "cart (w\<lparr>booksStore := b\<rparr>) = cart w"
  by (simp add: cart_def)

lemma cart_clear: "cart (clearCurrentSale w) = []"
  by (simp add: cart_def clearCurrentSale_def empty_draft_def)

lemma foldl_subtotal:
  "foldl (\<lambda>sum item. sum + subtotal item) a xs = a + (\<Sum>item\<leftarrow>xs. subtotal item)"
  by (induction xs arbitrary: a) (simp_all add: add.assoc)

lemma currentSaleSubtotal_sum: "currentSaleSubtotal w = (\<Sum>item\<leftarrow>cart w. subtotal item)"
  by (simp add: currentSaleSubtotal_def foldl_subtotal)

lemma modify_first_all:
  "list_all Q xs \<Longrightarrow> (\<And>x. Q x \<Longrightarrow> Q (f x)) \<Longrightarrow> list_all Q (modify_first P f xs)"
  by (induction xs) auto

lemma remove_first_all: "list_all Q xs \<Longrightarrow> list_all Q (remove_first P xs)"
  by (induction xs) auto

lemma modify_first_find:
  "find P xs = Some e \<Longrightarrow> P (f e) \<Longrightarrow> find P (modify_first P f xs) = Some (f e)"
  by (induction xs) (auto split: if_splits)

lemma modify_first_length: "length (modify_first P f xs) = length xs"
  by (induction xs) auto

lemma modify_first_other:
  "i < length xs \<Longrightarrow> \<not> P (xs ! i) \<Longrightarrow> modify_first P f xs ! i = xs ! i"
proof (induction xs arbitrary: i)
  case Nil
  then show ?case by simp
next
  case (Cons x xs)
  then show ?case by (cases i) auto
qed

lemmas example_defs =
  shop_def book1_def book2_def row1_def row2_def mapToAppBook_def empty_draft_def shop_discounted_def line_B1_x3_def
  line_B2_old_def shop_repriced_def
  getBookById_def cart_def set_cart_def

section \<open>Totals of the draft sale\<close>

text \<open>
  With exact operations the expression of \<^verbatim>\<open>currentSaleTotal\<close> is the formula
  \<open>subtotal * (1 - discount / 100) + subtotal * 0.08\<close>, by the laws of a field. The
  machine's operations do not obey these laws.
\<close>

lemma currentSaleTotal_exact:
  "currentSaleTotal w =
     currentSaleSubtotal w * (1 - discount (currentSale (salesStore w)) / 100)
     + currentSaleSubtotal w * 0.08"
  by (simp add: currentSaleTotal_def Let_def algebra_simps)

subsection \<open>The error of one rounding\<close>




subsection \<open>The error of the total\<close>














text \<open>\<^verbatim>\<open>setDiscount\<close> clamps, so a discount set through it is between 0 and 100.\<close>

lemma setDiscount_range:
  "0 \<le> discount (currentSale (salesStore (setDiscount x w))) \<and>
   discount (currentSale (salesStore (setDiscount x w))) \<le> 100"
  by (simp add: setDiscount_def)

section \<open>Lines of the draft sale\<close>

text \<open>A line is consistent when its subtotal is its unit price times its quantity.\<close>

lemma addItem_lines_ok:
  "list_all (\<lambda>item. subtotal item = price item * of_int (quantity item)) (cart w) \<Longrightarrow>
   list_all (\<lambda>item. subtotal item = price item * of_int (quantity item))
     (cart (snd (addItemToCurrentSale bid qty w)))"
  by (auto simp: addItemToCurrentSale_def cart_set_cart
           intro!: modify_first_all split: option.splits)

lemma removeItem_lines_ok:
  "list_all Q (cart w) \<Longrightarrow> list_all Q (cart (removeItemFromCurrentSale bid w))"
  by (simp add: removeItemFromCurrentSale_def cart_set_cart remove_first_all)

lemma updateItemQuantity_lines_ok:
  "list_all (\<lambda>item. subtotal item = price item * of_int (quantity item)) (cart w) \<Longrightarrow>
   list_all (\<lambda>item. subtotal item = price item * of_int (quantity item))
     (cart (updateItemQuantity bid qty w))"
  by (auto simp: updateItemQuantity_def cart_set_cart removeItem_lines_ok
           intro!: modify_first_all split: option.splits)

lemma apply_event_lines_ok:
  "list_all (\<lambda>item. subtotal item = price item * of_int (quantity item)) (cart w) \<Longrightarrow>
   list_all (\<lambda>item. subtotal item = price item * of_int (quantity item))
     (cart (apply_event e w))"
  by (cases e)
     (simp_all add: addItem_lines_ok removeItem_lines_ok updateItemQuantity_lines_ok
        cart_catalog_change)

lemma run_events_lines_ok:
  "list_all (\<lambda>item. subtotal item = price item * of_int (quantity item)) (cart w) \<Longrightarrow>
   list_all (\<lambda>item. subtotal item = price item * of_int (quantity item))
     (cart (run_events es w))"
  by (induction es arbitrary: w) (simp_all add: apply_event_lines_ok)

lemma lines_ok_sum:
  "list_all (\<lambda>item. subtotal item = price item * of_int (quantity item)) xs \<Longrightarrow>
   (\<Sum>item\<leftarrow>xs. subtotal item) = (\<Sum>item\<leftarrow>xs. price item * of_int (quantity item))"
  by (induction xs) simp_all

text \<open>
  C6. After any sequence of \<^verbatim>\<open>addItem\<close>, \<^verbatim>\<open>removeItem\<close> and \<^verbatim>\<open>setQuantity\<close> calls
  (and changes of the catalog in between) on a draft that starts empty, the subtotal is
  the sum over the lines of unit price times quantity.
\<close>

theorem C6_subtotal_is_sum_of_price_times_quantity:
  assumes "cart w = []"
  shows "currentSaleSubtotal (run_events es w) =
           (\<Sum>item\<leftarrow>cart (run_events es w). price item * of_int (quantity item))"
proof -
  have "list_all (\<lambda>item. subtotal item = price item * of_int (quantity item))
          (cart (run_events es w))"
    by (rule run_events_lines_ok) (simp add: assms)
  then show ?thesis
    by (simp add: currentSaleSubtotal_sum lines_ok_sum)
qed

theorem C6_subtotal_witness:
  "cart shop = [] \<and>
   map (\<lambda>item. (bookId item, price item, quantity item))
     (cart (run_events
        [AddItem ''B2'' 1, AddItem ''B1'' 1, AddItem ''B2'' 2, SetQuantity ''B2'' 2,
         RemoveItem ''B1''] shop)) = [(''B2'', 25 / 2, 2)] \<and>
   currentSaleSubtotal (run_events
        [AddItem ''B2'' 1, AddItem ''B1'' 1, AddItem ''B2'' 2, SetQuantity ''B2'' 2,
         RemoveItem ''B1''] shop) = 25"
proof -
  have h: "cart shop = []"
    by (simp add: example_defs)
  have c: "map (\<lambda>item. (bookId item, price item, quantity item))
     (cart (run_events
        [AddItem ''B2'' 1, AddItem ''B1'' 1, AddItem ''B2'' 2, SetQuantity ''B2'' 2,
         RemoveItem ''B1''] shop)) = [(''B2'', 25 / 2, 2)]"
    by (simp add: example_defs addItemToCurrentSale_def updateItemQuantity_def
          removeItemFromCurrentSale_def)
  from C6_subtotal_is_sum_of_price_times_quantity [OF h,
      of "[AddItem ''B2'' 1, AddItem ''B1'' 1, AddItem ''B2'' 2, SetQuantity ''B2'' 2,
           RemoveItem ''B1'']"]
  show ?thesis
    by (simp add: h c example_defs addItemToCurrentSale_def updateItemQuantity_def
          removeItemFromCurrentSale_def)
qed

text \<open>
  C10. When \<^verbatim>\<open>addItem\<close> succeeds for a book that already has a line in the draft, that
  line keeps the unit price, title and author it was created with; its quantity grows by
  the added quantity and its subtotal becomes the kept price times the new quantity. The
  draft has as many lines as before and the lines of other books are untouched. The
  catalog, and with it the book's current price, is arbitrary here.
\<close>

theorem C10_existing_line_keeps_price:
  assumes existing: "find (\<lambda>item. bookId item = bid) (cart w) = Some e"
      and added: "addItemToCurrentSale bid qty w = (Inr (), w')"
  shows "find (\<lambda>item. bookId item = bid) (cart w') =
           Some (e\<lparr>quantity := quantity e + qty,
                   subtotal := price e * of_int (quantity e + qty)\<rparr>) \<and>
         length (cart w') = length (cart w) \<and>
         (\<forall>i < length (cart w). bookId (cart w ! i) \<noteq> bid \<longrightarrow> cart w' ! i = cart w ! i)"
proof -
  let ?P = "\<lambda>item. bookId item = bid"
  let ?f = "\<lambda>item. item\<lparr>quantity := quantity item + qty,
                            subtotal := price item * of_int (quantity item + qty)\<rparr>"
  from added existing have w': "cart w' = modify_first ?P ?f (cart w)"
    by (auto simp: addItemToCurrentSale_def cart_set_cart split: option.splits if_splits)
  from existing have "bookId e = bid"
    by (auto dest: find_Some_iff[THEN iffD1])
  then have "?P (?f e)" by simp
  with existing have "find ?P (modify_first ?P ?f (cart w)) = Some (?f e)"
    by (rule modify_first_find)
  then show ?thesis
    by (simp add: w' modify_first_other modify_first_length)
qed

text \<open>
  The draft holds a line for B2 taken at 9.00 and a line for B1; the catalog now lists B2
  at 12.50. Adding two more copies of B2 gives a line of three copies at 9.00.
\<close>

theorem C10_existing_line_witness:
  "find (\<lambda>item. bookId item = ''B2'') (cart shop_repriced) = Some line_B2_old \<and>
   book_price book2 = 25 / 2 \<and> price line_B2_old = 9 \<and> quantity line_B2_old = 1 \<and>
   addItemToCurrentSale ''B2'' 2 shop_repriced =
     (Inr (), set_cart [line_B2_old\<lparr>quantity := 3, subtotal := 27\<rparr>, line_B1_x3] shop_repriced) \<and>
   find (\<lambda>item. bookId item = ''B2'')
     (cart (set_cart [line_B2_old\<lparr>quantity := 3, subtotal := 27\<rparr>, line_B1_x3] shop_repriced)) =
     Some (line_B2_old\<lparr>quantity := 3, subtotal := 9 * 3\<rparr>)"
proof -
  have h1: "find (\<lambda>item. bookId item = ''B2'') (cart shop_repriced) = Some line_B2_old"
    by (simp add: example_defs)
  have h2: "addItemToCurrentSale ''B2'' 2 shop_repriced =
     (Inr (), set_cart [line_B2_old\<lparr>quantity := 3, subtotal := 27\<rparr>, line_B1_x3] shop_repriced)"
    by (simp add: example_defs addItemToCurrentSale_def)
  have h3: "book_price book2 = 25 / 2 \<and> price line_B2_old = 9 \<and> quantity line_B2_old = 1"
    by (simp add: book2_def row2_def mapToAppBook_def line_B2_old_def)
  from C10_existing_line_keeps_price [OF h1 h2]
  have "find (\<lambda>item. bookId item = ''B2'')
     (cart (set_cart [line_B2_old\<lparr>quantity := 3, subtotal := 27\<rparr>, line_B1_x3] shop_repriced)) =
     Some (line_B2_old\<lparr>quantity := 3, subtotal := 9 * 3\<rparr>)"
    by (simp add: h3)
  with h1 h2 h3 show ?thesis
    by simp
qed

text \<open>
  C7. When the requested quantity exceeds the stock of the book, \<^verbatim>\<open>addItem\<close> throws
  the error "Libro no disponible o stock insuficiente" and the world after the call is
  the world before it: neither the catalog, with the book's stock, nor the draft has
  changed.
\<close>

theorem C7_exceeding_stock_fails_unchanged:
  assumes "getBookById w bid = Some book" and "book_stock book < qty"
  shows "addItemToCurrentSale bid qty w = (Inl (Error LibroNoDisponibleOStockInsuficiente), w)"
  using assms by (simp add: addItemToCurrentSale_def)

text \<open>The scenario of the specification: five copies of B2, of which there are three.\<close>

theorem C7_exceeding_stock_witness:
  "getBookById shop_discounted ''B2'' = Some book2 \<and> book_stock book2 < 5 \<and>
   addItemToCurrentSale ''B2'' 5 shop_discounted =
     (Inl (Error LibroNoDisponibleOStockInsuficiente), shop_discounted) \<and>
   cart (snd (addItemToCurrentSale ''B2'' 5 shop_discounted)) = [line_B1_x3]"
proof -
  have h1: "getBookById shop_discounted ''B2'' = Some book2"
    by (simp add: example_defs)
  have h2: "book_stock book2 < 5"
    by (simp add: book2_def row2_def mapToAppBook_def)
  from C7_exceeding_stock_fails_unchanged [OF h1 h2] show ?thesis
    by (simp add: h1 h2) (simp add: example_defs)
qed

text \<open>
  The outcome of \<^verbatim>\<open>addItem\<close> depends on the catalog and on the quantity of the call
  only: it throws for an unknown book and for a quantity above the stock of the book,
  and succeeds otherwise.
\<close>

lemma addItem_outcome:
  "fst (addItemToCurrentSale bid qty w) =
     (case getBookById w bid of
        None \<Rightarrow> Inl (Error LibroNoDisponibleOStockInsuficiente)
      | Some book \<Rightarrow>
          if book_stock book < qty then Inl (Error LibroNoDisponibleOStockInsuficiente)
          else Inr ())"
  by (simp add: addItemToCurrentSale_def split: option.split)

text \<open>
  C1. \<^verbatim>\<open>addItem\<close> compares the stock with the quantity of the call alone, not with
  the quantity the line would reach. With one copy of B1 in stock and one copy already
  in the draft, adding another copy succeeds and the line holds two.
\<close>

theorem C1_cumulative_quantity_not_checked:
  "getBookById shop ''B1'' = Some book1 \<and> book_stock book1 = 1 \<and>
   map (\<lambda>item. (bookId item, quantity item)) (cart (run_events [AddItem ''B1'' 1] shop))
     = [(''B1'', 1)] \<and>
   fst (addItemToCurrentSale ''B1'' 1 (run_events [AddItem ''B1'' 1] shop)) = Inr () \<and>
   map (\<lambda>item. (bookId item, quantity item))
     (cart (snd (addItemToCurrentSale ''B1'' 1 (run_events [AddItem ''B1'' 1] shop))))
     = [(''B1'', 2)]"
  by (simp add: example_defs addItemToCurrentSale_def)

text \<open>
  C3. \<^verbatim>\<open>addItem\<close> accepts a quantity that is zero or negative: on the empty draft
  \<^verbatim>\<open>addItem("B1", 0)\<close> creates a line of quantity 0, and \<^verbatim>\<open>addItem("B2", -2)\<close> after
  \<^verbatim>\<open>addItem("B2", 1)\<close> leaves a line of quantity -1 in the draft.
\<close>

theorem C3_addItem_leaves_nonpositive_line:
  "fst (addItemToCurrentSale ''B1'' 0 shop) = Inr () \<and>
   map (\<lambda>item. (bookId item, quantity item)) (cart (run_events [AddItem ''B1'' 0] shop))
     = [(''B1'', 0)] \<and>
   map (\<lambda>item. (bookId item, quantity item))
     (cart (run_events [AddItem ''B2'' 1, AddItem ''B2'' (- 2)] shop)) = [(''B2'', - 1)]"
  by (simp add: example_defs addItemToCurrentSale_def)

text \<open>
  What the cart operations do keep: when every \<^verbatim>\<open>addItem\<close> of a run asks for a positive
  quantity, every line has a positive quantity, and \<^verbatim>\<open>setQuantity\<close> with a quantity of
  zero or less removes the line.
\<close>

lemma apply_event_positive:
  "list_all (\<lambda>item. 0 < quantity item) (cart w) \<Longrightarrow> positive_adds [e] \<Longrightarrow>
   list_all (\<lambda>item. 0 < quantity item) (cart (apply_event e w))"
proof (cases e)
  case (AddItem bid qty)
  assume "list_all (\<lambda>item. 0 < quantity item) (cart w)" "positive_adds [e]"
  then show ?thesis using AddItem
    by (auto simp: addItemToCurrentSale_def cart_set_cart
             intro!: modify_first_all split: option.splits)
next
  case (RemoveItem bid)
  assume "list_all (\<lambda>item. 0 < quantity item) (cart w)"
  then show ?thesis using RemoveItem by (simp add: removeItem_lines_ok)
next
  case (SetQuantity bid qty)
  assume "list_all (\<lambda>item. 0 < quantity item) (cart w)"
  then show ?thesis using SetQuantity
    by (auto simp: updateItemQuantity_def cart_set_cart removeItem_lines_ok
             intro!: modify_first_all split: option.splits)
next
  case (CatalogChange bs)
  assume "list_all (\<lambda>item. 0 < quantity item) (cart w)"
  then show ?thesis using CatalogChange by (simp add: cart_catalog_change)
qed

lemma run_events_positive:
  "list_all (\<lambda>item. 0 < quantity item) (cart w) \<Longrightarrow> positive_adds es \<Longrightarrow>
   list_all (\<lambda>item. 0 < quantity item) (cart (run_events es w))"
proof (induction es arbitrary: w)
  case Nil
  then show ?case by simp
next
  case (Cons e es)
  from Cons.prems(2) have "positive_adds [e]" "positive_adds es"
    by (cases e; simp)+
  with Cons.prems(1) Cons.IH show ?case
    by (simp add: apply_event_positive)
qed

lemma updateItemQuantity_nonpositive_removes:
  "find (\<lambda>item. bookId item = bid) (cart w) = Some e \<Longrightarrow> qty \<le> 0 \<Longrightarrow>
   cart (updateItemQuantity bid qty w) = remove_first (\<lambda>item. bookId item = bid) (cart w)"
  by (simp add: updateItemQuantity_def removeItemFromCurrentSale_def cart_set_cart)

text \<open>
  Every draft that the cart operations build from an empty one has one line per book.
\<close>

lemma modify_first_map_key:
  "(\<And>x. k (f x) = k x) \<Longrightarrow> map k (modify_first P f xs) = map k xs"
  by (induction xs) auto

lemma remove_first_distinct: "distinct (map k xs) \<Longrightarrow> distinct (map k (remove_first P xs))"
proof (induction xs)
  case Nil
  then show ?case by simp
next
  case (Cons x xs)
  have "set (remove_first P xs) \<subseteq> set xs"
    by (induction xs) auto
  with Cons show ?case by auto
qed

lemma apply_event_distinct:
  "distinct (map bookId (cart w)) \<Longrightarrow> distinct (map bookId (cart (apply_event e w)))"
proof (cases e)
  case (AddItem bid qty)
  assume d: "distinct (map bookId (cart w))"
  have "find (\<lambda>item. bookId item = bid) (cart w) = None \<Longrightarrow> bid \<notin> bookId ` set (cart w)"
    by (auto simp: find_None_iff)
  with d AddItem show ?thesis
    by (auto simp: addItemToCurrentSale_def cart_set_cart modify_first_map_key
             split: option.splits)
next
  case (RemoveItem bid)
  assume "distinct (map bookId (cart w))"
  with RemoveItem show ?thesis
    by (simp add: removeItemFromCurrentSale_def cart_set_cart remove_first_distinct)
next
  case (SetQuantity bid qty)
  assume "distinct (map bookId (cart w))"
  with SetQuantity show ?thesis
    by (auto simp: updateItemQuantity_def removeItemFromCurrentSale_def cart_set_cart
          remove_first_distinct modify_first_map_key split: option.splits)
next
  case (CatalogChange bs)
  assume "distinct (map bookId (cart w))"
  with CatalogChange show ?thesis by (simp add: cart_catalog_change)
qed

lemma run_events_distinct:
  "distinct (map bookId (cart w)) \<Longrightarrow> distinct (map bookId (cart (run_events es w)))"
  by (induction es arbitrary: w) (simp_all add: apply_event_distinct)

section \<open>Stock updates\<close>

lemma returns_updated_rowD:
  "returns_updated_row be \<Longrightarrow> update_books be i s db = (Inr row, db') \<Longrightarrow>
   book_id row = i \<and> book_stock row = s"
  unfolding returns_updated_row_def by blast

lemma find_id_modify_first_same:
  "find (\<lambda>b. k b = i) xs = Some old \<Longrightarrow> k new = i \<Longrightarrow>
   find (\<lambda>b. k b = i) (modify_first (\<lambda>b. k b = i) (\<lambda>_. new) xs) = Some new"
  by (induction xs) (auto split: if_splits)

lemma find_id_modify_first_other:
  "k new = i \<Longrightarrow> j \<noteq> i \<Longrightarrow>
   find (\<lambda>b. k b = j) (modify_first (\<lambda>b. k b = i) (\<lambda>_. new) xs) = find (\<lambda>b. k b = j) xs"
  by (induction xs) auto

lemma map_id_modify_first:
  "k new = i \<Longrightarrow> map k (modify_first (\<lambda>b. k b = i) (\<lambda>_. new) xs) = map k xs"
  by (induction xs) auto

lemma book_id_mapToAppBook: "book_id (mapToAppBook row) = book_id row"
  by (simp add: mapToAppBook_def)

lemma book_stock_mapToAppBook: "book_stock (mapToAppBook row) = book_stock row"
  by (simp add: mapToAppBook_def)

lemma updateBook_salesStore: "salesStore (snd (updateBook be i s w)) = salesStore w"
  by (simp add: updateBook_def Let_def split: prod.splits sum.splits)

lemma updateBook_ids:
  assumes "returns_updated_row be"
  shows "map book_id (books (booksStore (snd (updateBook be i s w)))) =
         map book_id (books (booksStore w))"
proof (cases "update_books be i s (remote w)")
  case (Pair r db')
  show ?thesis
  proof (cases r)
    case (Inl e)
    with Pair show ?thesis by (simp add: updateBook_def Let_def)
  next
    case (Inr row)
    with Pair assms have "book_id row = i"
      by (auto dest: returns_updated_rowD)
    with Pair Inr show ?thesis
      by (simp add: updateBook_def Let_def map_id_modify_first book_id_mapToAppBook)
  qed
qed

lemma updateBook_other:
  assumes "returns_updated_row be" and "j \<noteq> i"
  shows "getBookById (snd (updateBook be i s w)) j = getBookById w j"
proof (cases "update_books be i s (remote w)")
  case (Pair r db')
  show ?thesis
  proof (cases r)
    case (Inl e)
    with Pair show ?thesis by (simp add: updateBook_def Let_def getBookById_def)
  next
    case (Inr row)
    with Pair assms have "book_id row = i"
      by (auto dest: returns_updated_rowD)
    with Pair Inr assms(2) show ?thesis
      by (simp add: updateBook_def Let_def getBookById_def find_id_modify_first_other
            book_id_mapToAppBook)
  qed
qed

lemma updateBook_written:
  assumes "returns_updated_row be" and "updateBook be i s w = (Inr b, w')"
      and "getBookById w i = Some old"
  shows "getBookById w' i = Some b \<and> book_stock b = s"
proof (cases "update_books be i s (remote w)")
  case (Pair r db')
  show ?thesis
  proof (cases r)
    case (Inl e)
    with Pair assms(2) show ?thesis by (simp add: updateBook_def Let_def)
  next
    case (Inr row)
    with Pair assms(1) have row: "book_id row = i" "book_stock row = s"
      by (auto dest: returns_updated_rowD)
    from Pair Inr assms(2) have b: "b = mapToAppBook row"
      and w': "books (booksStore w') =
                 modify_first (\<lambda>book. book_id book = i) (\<lambda>_. mapToAppBook row) (books (booksStore w))"
      by (auto simp: updateBook_def Let_def)
    from assms(3) row show ?thesis
      by (simp add: getBookById_def w' b find_id_modify_first_same book_id_mapToAppBook
            book_stock_mapToAppBook)
  qed
qed

lemma updateStock_missing:
  "getBookById w i = None \<Longrightarrow> updateStock be i qty w = (Inr (), w)"
  by (simp add: updateStock_def getBookById_def)

lemma updateStock_salesStore: "salesStore (snd (updateStock be i qty w)) = salesStore w"
proof (cases "find (\<lambda>book. book_id book = i) (books (booksStore w))")
  case None
  then show ?thesis by (simp add: updateStock_def)
next
  case (Some book)
  have "salesStore (snd (updateBook be i (max 0 (book_stock book + qty)) w)) = salesStore w"
    by (rule updateBook_salesStore)
  with Some show ?thesis
    by (auto simp: updateStock_def Let_def split: prod.splits sum.splits)
qed

lemma getBookById_books_error:
  "getBookById (w\<lparr>booksStore := (booksStore w)\<lparr>books_error := x\<rparr>\<rparr>) j = getBookById w j"
  by (simp add: getBookById_def)

lemma updateStock_ids:
  assumes "returns_updated_row be"
  shows "map book_id (books (booksStore (snd (updateStock be i qty w)))) =
         map book_id (books (booksStore w))"
proof (cases "find (\<lambda>book. book_id book = i) (books (booksStore w))")
  case None
  then show ?thesis by (simp add: updateStock_def)
next
  case (Some book)
  from assms
  have "map book_id (books (booksStore (snd (updateBook be i (max 0 (book_stock book + qty)) w)))) =
        map book_id (books (booksStore w))"
    by (rule updateBook_ids)
  with Some show ?thesis
    by (auto simp: updateStock_def Let_def split: prod.splits sum.splits)
qed

lemma updateStock_other:
  assumes "returns_updated_row be" and "j \<noteq> i"
  shows "getBookById (snd (updateStock be i qty w)) j = getBookById w j"
proof (cases "find (\<lambda>book. book_id book = i) (books (booksStore w))")
  case None
  then show ?thesis by (simp add: updateStock_def)
next
  case (Some book)
  from assms
  have "getBookById (snd (updateBook be i (max 0 (book_stock book + qty)) w)) j = getBookById w j"
    by (rule updateBook_other)
  with Some show ?thesis
    by (auto simp: updateStock_def Let_def getBookById_books_error split: prod.splits sum.splits)
qed

lemma updateStock_written:
  assumes "returns_updated_row be" and "updateStock be i qty w = (Inr (), w')"
      and "getBookById w i = Some old"
  shows "\<exists>b. getBookById w' i = Some b \<and> book_stock b = max 0 (book_stock old + qty)"
proof -
  from assms(3) have f: "find (\<lambda>book. book_id book = i) (books (booksStore w)) = Some old"
    by (simp add: getBookById_def)
  with assms(2) obtain b where
    "updateBook be i (max 0 (book_stock old + qty)) w = (Inr b, w')"
    by (auto simp: updateStock_def Let_def split: prod.splits sum.splits)
  from updateBook_written [OF assms(1) this assms(3)] show ?thesis
    by blast
qed

lemma updateStocks_salesStore: "salesStore (snd (updateStocks be its w)) = salesStore w"
proof (induction its arbitrary: w)
  case Nil
  then show ?case by simp
next
  case (Cons x xs)
  obtain r w1 where step: "updateStock be (bookId x) (- quantity x) w = (r, w1)"
    by (cases "updateStock be (bookId x) (- quantity x) w")
  then have "salesStore w1 = salesStore w"
    using updateStock_salesStore [of be "bookId x" "- quantity x" w] by simp
  with step Cons.IH [of w1] show ?case
    by (cases r) simp_all
qed

lemma updateStocks_ids:
  assumes "returns_updated_row be"
  shows "map book_id (books (booksStore (snd (updateStocks be its w)))) =
         map book_id (books (booksStore w))"
proof (induction its arbitrary: w)
  case Nil
  then show ?case by simp
next
  case (Cons x xs)
  obtain r w1 where step: "updateStock be (bookId x) (- quantity x) w = (r, w1)"
    by (cases "updateStock be (bookId x) (- quantity x) w")
  then have "map book_id (books (booksStore w1)) = map book_id (books (booksStore w))"
    using updateStock_ids [OF assms, of "bookId x" "- quantity x" w] by simp
  with step Cons.IH [of w1] show ?case
    by (cases r) simp_all
qed

lemma updateStocks_other:
  assumes "returns_updated_row be"
  shows "j \<notin> bookId ` set its \<Longrightarrow> getBookById (snd (updateStocks be its w)) j = getBookById w j"
proof (induction its arbitrary: w)
  case Nil
  then show ?case by simp
next
  case (Cons x xs)
  obtain r w1 where step: "updateStock be (bookId x) (- quantity x) w = (r, w1)"
    by (cases "updateStock be (bookId x) (- quantity x) w")
  from Cons.prems have "j \<noteq> bookId x" and rest: "j \<notin> bookId ` set xs"
    by auto
  then have "getBookById w1 j = getBookById w j"
    using updateStock_other [OF assms, of j "bookId x" "- quantity x" w] step by simp
  with step Cons.IH [OF rest, of w1] show ?case
    by (cases r) simp_all
qed

lemma updateStocks_written:
  assumes echo: "returns_updated_row be"
  shows "updateStocks be its w = (Inr (), w') \<Longrightarrow> distinct (map bookId its) \<Longrightarrow>
         item \<in> set its \<Longrightarrow> getBookById w (bookId item) = Some old \<Longrightarrow>
         \<exists>b. getBookById w' (bookId item) = Some b \<and>
             book_stock b = max 0 (book_stock old - quantity item)"
proof (induction its arbitrary: w)
  case Nil
  then show ?case by simp
next
  case (Cons x xs)
  from Cons.prems(1) obtain w1 where
    step: "updateStock be (bookId x) (- quantity x) w = (Inr (), w1)" and
    rest: "updateStocks be xs w1 = (Inr (), w')"
    by (auto split: prod.splits sum.splits)
  from Cons.prems(2) have fresh: "bookId x \<notin> bookId ` set xs" and dist: "distinct (map bookId xs)"
    by auto
  show ?case
  proof (cases "item = x")
    case True
    with updateStock_written [OF echo step] Cons.prems(4) obtain b where
      b: "getBookById w1 (bookId x) = Some b"
         "book_stock b = max 0 (book_stock old + - quantity x)"
      by auto
    from updateStocks_other [OF echo fresh, of w1] rest
    have "getBookById w' (bookId x) = getBookById w1 (bookId x)"
      by simp
    with b True show ?thesis by simp
  next
    case False
    with Cons.prems(3) have mem: "item \<in> set xs" by simp
    with fresh have "bookId item \<noteq> bookId x" by (metis imageI)
    with updateStock_other [OF echo this, of "- quantity x" w] step Cons.prems(4)
    have "getBookById w1 (bookId item) = Some old" by simp
    from Cons.IH [OF rest dist mem this] show ?thesis .
  qed
qed

lemma getBookById_None_iff:
  "getBookById w j = None \<longleftrightarrow> j \<notin> set (map book_id (books (booksStore w)))"
  by (auto simp: getBookById_def find_None_iff)

lemma updateStocks_skip_ids:
  assumes echo: "returns_updated_row be"
  shows "map book_id (books (booksStore w)) = ids \<Longrightarrow>
         updateStocks be its w = updateStocks be (filter (\<lambda>it. bookId it \<in> set ids) its) w"
proof (induction its arbitrary: w)
  case Nil
  then show ?case by simp
next
  case (Cons x xs)
  show ?case
  proof (cases "bookId x \<in> set ids")
    case False
    with Cons.prems have "getBookById w (bookId x) = None"
      by (simp add: getBookById_None_iff)
    then have "updateStock be (bookId x) (- quantity x) w = (Inr (), w)"
      by (rule updateStock_missing)
    with False Cons.IH [OF Cons.prems] show ?thesis by simp
  next
    case True
    obtain r w1 where step: "updateStock be (bookId x) (- quantity x) w = (r, w1)"
      by (cases "updateStock be (bookId x) (- quantity x) w")
    then have "map book_id (books (booksStore w1)) = ids"
      using updateStock_ids [OF echo, of "bookId x" "- quantity x" w] Cons.prems by simp
    from Cons.IH [OF this] step True show ?thesis
      by (cases r) simp_all
  qed
qed

lemma updateStocks_skip_missing:
  assumes "returns_updated_row be"
  shows "updateStocks be its w =
         updateStocks be (filter (\<lambda>it. getBookById w (bookId it) \<noteq> None) its) w"
  using updateStocks_skip_ids [OF assms refl, where its = its and w = w]
  by (simp add: getBookById_None_iff)

lemma updateStocks_all_missing:
  "\<forall>it \<in> set its. getBookById w (bookId it) = None \<Longrightarrow> updateStocks be its w = (Inr (), w)"
  by (induction its) (simp_all add: updateStock_missing)

lemma cart_flags:
  "cart (w\<lparr>salesStore := (salesStore w)\<lparr>loading := l, error := e\<rparr>\<rparr>) = cart w"
  by (simp add: cart_def)

lemma currentSaleSubtotal_flags:
  "currentSaleSubtotal (w\<lparr>salesStore := (salesStore w)\<lparr>loading := l, error := e\<rparr>\<rparr>) =
   currentSaleSubtotal w"
  by (simp add: currentSaleSubtotal_def cart_flags)

lemma completeSale_empty:
  "cart w = [] \<Longrightarrow> completeSale be t d w = (Inl (Error VentaSinArticulos), w)"
  by (simp add: completeSale_def)

lemma completeSale_header_fails:
  assumes "cart w \<noteq> []" and "insert_sales be (saleInsert w) (remote w) = (Inl e, db1)"
  shows "completeSale be t d w =
           completeSale_catch (Postgrest e)
             (w\<lparr>salesStore := (salesStore w)\<lparr>loading := True, error := None\<rparr>, remote := db1\<rparr>)"
  using assms
  by (simp add: completeSale_def saleInsert_def Let_def cart_flags currentSaleSubtotal_flags)

lemma itemsRows_of_Nil_iff: "itemsRows_of row its = [] \<longleftrightarrow> its = []"
  by (simp add: itemsRows_of_def)

lemma completeSale_nonempty:
  assumes "cart w \<noteq> []"
  shows "completeSale be t d w =
    (case insert_sales be (saleInsert w) (remote w) of
       (Inl saleErr, db1) \<Rightarrow>
         completeSale_catch (Postgrest saleErr)
           (w\<lparr>salesStore := (salesStore w)\<lparr>loading := True, error := None\<rparr>, remote := db1\<rparr>)
     | (Inr saleRow, db1) \<Rightarrow>
         (case insert_sale_items be (itemsRows_of saleRow (cart w)) db1 of
            (Some itemsErr, db2) \<Rightarrow>
              completeSale_catch (Postgrest itemsErr)
                (w\<lparr>salesStore := (salesStore w)\<lparr>loading := True, error := None\<rparr>,
                   remote := db2\<rparr>)
          | (None, db2) \<Rightarrow>
              (case updateStocks be (cart w)
                      (w\<lparr>salesStore := (salesStore w)\<lparr>loading := True, error := None\<rparr>,
                         remote := db2\<rparr>) of
                 (Inl err, w3) \<Rightarrow> completeSale_catch err w3
               | (Inr u, w3) \<Rightarrow>
                   (Inr \<lparr>sale_id = dbs_id saleRow,
                         sale_customerId = customerId (currentSale (salesStore w3)),
                         sale_customerName = customerName (currentSale (salesStore w3)),
                         sale_total = currentSaleTotal w,
                         sale_subtotal = currentSaleSubtotal w,
                         sale_tax = currentSaleSubtotal w * 0.08,
                         sale_discount = discount (currentSale (salesStore w3)),
                         sale_paymentMethod = paymentMethod (currentSale (salesStore w3)),
                         sale_status = ''completed'',
                         sale_items = items (currentSale (salesStore w3)),
                         sale_time = t, sale_date = d,
                         sale_notes = saleNotes (currentSale (salesStore w3)),
                         sale_created_at = dbs_created_at saleRow,
                         sale_updated_at = dbs_updated_at saleRow\<rparr>,
                    w3\<lparr>salesStore := (salesStore w3)
                         \<lparr>sales :=
                            \<lparr>sale_id = dbs_id saleRow,
                             sale_customerId = customerId (currentSale (salesStore w3)),
                             sale_customerName = customerName (currentSale (salesStore w3)),
                             sale_total = currentSaleTotal w,
                             sale_subtotal = currentSaleSubtotal w,
                             sale_tax = currentSaleSubtotal w * 0.08,
                             sale_discount = discount (currentSale (salesStore w3)),
                             sale_paymentMethod = paymentMethod (currentSale (salesStore w3)),
                             sale_status = ''completed'',
                             sale_items = items (currentSale (salesStore w3)),
                             sale_time = t, sale_date = d,
                             sale_notes = saleNotes (currentSale (salesStore w3)),
                             sale_created_at = dbs_created_at saleRow,
                             sale_updated_at = dbs_updated_at saleRow\<rparr> # sales (salesStore w3),
                          currentSale := empty_draft, loading := False\<rparr>\<rparr>))))"
  using assms
  by (simp add: completeSale_def saleInsert_def currentSaleTotal_def Let_def
        itemsRows_of_Nil_iff cart_flags currentSaleSubtotal_flags
      split: prod.split sum.split option.split)

lemma completeSale_success:
  assumes "completeSale be t d w = (Inr sale, w')"
  shows "\<exists>row db1 db2 w3.
           cart w \<noteq> [] \<and>
           insert_sales be (saleInsert w) (remote w) = (Inr row, db1) \<and>
           insert_sale_items be (itemsRows_of row (cart w)) db1 = (None, db2) \<and>
           updateStocks be (cart w)
             (w\<lparr>salesStore := (salesStore w)\<lparr>loading := True, error := None\<rparr>, remote := db2\<rparr>)
             = (Inr (), w3) \<and>
           sale_id sale = dbs_id row \<and>
           sale_total sale = currentSaleTotal w \<and>
           sale_subtotal sale = currentSaleSubtotal w \<and>
           sale_tax sale = currentSaleSubtotal w * 0.08 \<and>
           sale_discount sale = discount (currentSale (salesStore w3)) \<and>
           sale_items sale = items (currentSale (salesStore w3)) \<and>
           w' = w3\<lparr>salesStore := (salesStore w3)
                    \<lparr>sales := sale # sales (salesStore w3), currentSale := empty_draft,
                     loading := False\<rparr>\<rparr>"
proof -
  from assms have ne: "cart w \<noteq> []"
    by (auto simp: completeSale_def)
  obtain r1 db1 where r1: "insert_sales be (saleInsert w) (remote w) = (r1, db1)"
    by (cases "insert_sales be (saleInsert w) (remote w)")
  show ?thesis
  proof (cases r1)
    case (Inl e)
    with r1 ne assms show ?thesis
      by (simp add: completeSale_nonempty completeSale_catch_def)
  next
    case (Inr row)
    obtain r2 db2 where r2: "insert_sale_items be (itemsRows_of row (cart w)) db1 = (r2, db2)"
      by (cases "insert_sale_items be (itemsRows_of row (cart w)) db1")
    obtain r3 w3 where r3: "updateStocks be (cart w)
        (w\<lparr>salesStore := (salesStore w)\<lparr>loading := True, error := None\<rparr>, remote := db2\<rparr>)
        = (r3, w3)"
      by (cases "updateStocks be (cart w)
        (w\<lparr>salesStore := (salesStore w)\<lparr>loading := True, error := None\<rparr>, remote := db2\<rparr>)")
    from assms have "completeSale be t d w = (Inr sale, w')" .
    with r1 Inr r2 r3 ne show ?thesis
      by (cases r2; cases r3)
         (auto simp: completeSale_nonempty completeSale_catch_def)
  qed
qed

lemma shop_backend_returns_updated_row: "returns_updated_row shop_backend"
  by (auto simp: returns_updated_row_def shop_backend_def split: if_splits option.splits
           dest: find_Some_iff[THEN iffD1])

lemmas sale_defs =
  completeSale_def completeSale_catch_def updateStock_def updateBook_def shop_backend_def
  Let_def currentSaleSubtotal_def currentSaleTotal_def itemsRows_of_def
  customer_id_or_null_def payment_method_name_def shop_offline_def shop_ghost_def
  shop_ghost_mixed_def line_B9_def fetch_failed_def saleInsert_def

section \<open>Stock after a sale\<close>

text \<open>
  C4. Let the database answer an update with the row it wrote. After a successful
  \<^verbatim>\<open>completeSale\<close> on a draft with one line per book, as the cart operations build it
  (\<open>run_events_distinct\<close>), every line whose book is in the catalog has left that book
  with the stock \<open>max 0 (stock before - quantity of the line)\<close>: the stock went down by
  the quantity of the line and stopped at 0. And every successful \<^verbatim>\<open>updateStock\<close> of a
  book in the catalog leaves it with \<open>max 0 (stock + delta)\<close>.
\<close>

theorem C4_stock_after_completeSale:
  assumes "returns_updated_row be"
  shows "(completeSale be t d w = (Inr sale, w') \<and> distinct (map bookId (cart w)) \<and>
          item \<in> set (cart w) \<and> getBookById w (bookId item) = Some old \<longrightarrow>
            (\<exists>b. getBookById w' (bookId item) = Some b \<and>
                 book_stock b = max 0 (book_stock old - quantity item))) \<and>
         (updateStock be i delta v = (Inr (), v') \<and> getBookById v i = Some old' \<longrightarrow>
            (\<exists>b. getBookById v' i = Some b \<and> book_stock b = max 0 (book_stock old' + delta)))"
proof (intro conjI impI; (elim conjE)?)
  assume ok: "completeSale be t d w = (Inr sale, w')"
    and dist: "distinct (map bookId (cart w))"
    and mem: "item \<in> set (cart w)"
    and old: "getBookById w (bookId item) = Some old"
  let ?w1 = "\<lambda>db. w\<lparr>salesStore := (salesStore w)\<lparr>loading := True, error := None\<rparr>, remote := db\<rparr>"
  from completeSale_success [OF ok] obtain db2 w3 where
    loop: "updateStocks be (cart w) (?w1 db2) = (Inr (), w3)" and
    w': "w' = w3\<lparr>salesStore := (salesStore w3)
                  \<lparr>sales := sale # sales (salesStore w3), currentSale := empty_draft,
                   loading := False\<rparr>\<rparr>"
    by blast
  from old have "getBookById (?w1 db2) (bookId item) = Some old"
    by (simp add: getBookById_def)
  from updateStocks_written [OF assms loop dist mem this] obtain b where
    "getBookById w3 (bookId item) = Some b"
    "book_stock b = max 0 (book_stock old - quantity item)"
    by blast
  then show "\<exists>b. getBookById w' (bookId item) = Some b \<and>
                 book_stock b = max 0 (book_stock old - quantity item)"
    by (simp add: w' getBookById_def)
next
  assume "updateStock be i delta v = (Inr (), v')" and "getBookById v i = Some old'"
  with assms show "\<exists>b. getBookById v' i = Some b \<and> book_stock b = max 0 (book_stock old' + delta)"
    by (rule updateStock_written)
qed

text \<open>
  The draft holds one copy of B2, of which there are three, and three copies of B1, of
  which there is one: the sale leaves two copies of B2 and none of B1.
\<close>

theorem C4_stock_witness:
  "returns_updated_row shop_backend \<and>
   (\<exists>sale w'. completeSale shop_backend ''10:15:00'' ''2024-05-01'' shop_repriced = (Inr sale, w')) \<and>
   distinct (map bookId (cart shop_repriced)) \<and>
   line_B1_x3 \<in> set (cart shop_repriced) \<and>
   getBookById shop_repriced (bookId line_B1_x3) = Some book1 \<and>
   book_stock book1 = 1 \<and> quantity line_B1_x3 = 3 \<and>
   (\<exists>b. getBookById (snd (completeSale shop_backend ''10:15:00'' ''2024-05-01'' shop_repriced))
          (bookId line_B1_x3) = Some b \<and> book_stock b = 0) \<and>
   fst (updateStock shop_backend ''B2'' (- 1) shop) = Inr () \<and>
   getBookById shop ''B2'' = Some book2 \<and> book_stock book2 = 3 \<and>
   (\<exists>b. getBookById (snd (updateStock shop_backend ''B2'' (- 1) shop)) ''B2'' = Some b \<and>
        book_stock b = 2)"
proof -
  have echo: "returns_updated_row shop_backend"
    by (rule shop_backend_returns_updated_row)
  have "\<exists>sale w'. completeSale shop_backend ''10:15:00'' ''2024-05-01'' shop_repriced = (Inr sale, w')"
    by (simp add: example_defs sale_defs)
  then obtain sale w' where
    ok: "completeSale shop_backend ''10:15:00'' ''2024-05-01'' shop_repriced = (Inr sale, w')"
    by blast
  have dist: "distinct (map bookId (cart shop_repriced))"
    by (simp add: example_defs)
  have mem: "line_B1_x3 \<in> set (cart shop_repriced)"
    by (simp add: example_defs)
  have old: "getBookById shop_repriced (bookId line_B1_x3) = Some book1"
    by (simp add: example_defs)
  have nums: "book_stock book1 = 1 \<and> quantity line_B1_x3 = 3 \<and> book_stock book2 = 3"
    by (simp add: example_defs)
  have f2: "fst (updateStock shop_backend ''B2'' (- 1) shop) = Inr ()"
    by (simp add: example_defs sale_defs)
  then have ok2: "updateStock shop_backend ''B2'' (- 1) shop =
                    (Inr (), snd (updateStock shop_backend ''B2'' (- 1) shop))"
    by (simp add: prod_eq_iff)
  have old2: "getBookById shop ''B2'' = Some book2"
    by (simp add: example_defs)
  note inst = C4_stock_after_completeSale [OF echo, of "''10:15:00''" "''2024-05-01''"
      shop_repriced sale w' line_B1_x3 book1 "''B2''" "- 1" shop
      "snd (updateStock shop_backend ''B2'' (- 1) shop)" book2]
  from inst ok dist mem old
  have c1: "\<exists>b. getBookById w' (bookId line_B1_x3) = Some b \<and> book_stock b = 0"
    by (simp add: nums)
  from inst ok2 old2
  have c2: "\<exists>b. getBookById (snd (updateStock shop_backend ''B2'' (- 1) shop)) ''B2'' = Some b \<and>
        book_stock b = 2"
    by (simp add: nums)
  from echo ok dist mem old nums c1 c2 f2 old2 show ?thesis
    by simp
qed

section \<open>Failure of a sale\<close>

text \<open>
  C5. \<^verbatim>\<open>completeSale\<close> on a draft without lines throws "No se puede completar la venta
  sin articulos" and changes nothing. When the draft has lines and the insertion of the
  sale header fails, \<^verbatim>\<open>completeSale\<close> throws the error of the insertion; the draft, the
  sales collection and the book store, with every stock, are as before the call. What
  differs afterwards is the \<^verbatim>\<open>error\<close> and \<^verbatim>\<open>loading\<close> flags of the sales store and
  whatever the failed request did to the remote database.
\<close>

theorem C5_completeSale_failures:
  "(cart w = [] \<longrightarrow> completeSale be t d w = (Inl (Error VentaSinArticulos), w)) \<and>
   (cart w \<noteq> [] \<and> insert_sales be (saleInsert w) (remote w) = (Inl e, db1) \<longrightarrow>
      (\<exists>w'. completeSale be t d w = (Inl (Postgrest e), w') \<and>
            currentSale (salesStore w') = currentSale (salesStore w) \<and>
            sales (salesStore w') = sales (salesStore w) \<and>
            booksStore w' = booksStore w \<and>
            w' = w\<lparr>salesStore := (salesStore w)
                     \<lparr>error := Some (message_or ErrorCompletingSale (Postgrest e)),
                      loading := False\<rparr>,
                   remote := db1\<rparr>))"
  by (simp add: completeSale_empty completeSale_header_fails completeSale_catch_def)

theorem C5_completeSale_failures_witness:
  "cart shop = [] \<and>
   completeSale shop_backend ''10:15:00'' ''2024-05-01'' shop = (Inl (Error VentaSinArticulos), shop) \<and>
   cart shop_offline \<noteq> [] \<and>
   insert_sales shop_backend (saleInsert shop_offline) (remote shop_offline) =
     (Inl fetch_failed, remote shop_offline) \<and>
   completeSale shop_backend ''10:15:00'' ''2024-05-01'' shop_offline =
     (Inl (Postgrest fetch_failed),
      shop_offline\<lparr>salesStore := (salesStore shop_offline)
                     \<lparr>error := Some ErrorCompletingSale, loading := False\<rparr>\<rparr>)"
proof -
  have h1: "cart shop = []"
    by (simp add: example_defs)
  have h2: "cart shop_offline \<noteq> []"
    by (simp add: example_defs shop_offline_def)
  have h3: "insert_sales shop_backend (saleInsert shop_offline) (remote shop_offline) =
     (Inl fetch_failed, remote shop_offline)"
    by (simp add: shop_backend_def shop_offline_def)
  have m: "\<not> pg_instanceof_Error fetch_failed"
    by (simp add: fetch_failed_def)
  from C5_completeSale_failures [of shop shop_backend "''10:15:00''" "''2024-05-01''"
      fetch_failed "remote shop"] h1
  have c1: "completeSale shop_backend ''10:15:00'' ''2024-05-01'' shop =
              (Inl (Error VentaSinArticulos), shop)"
    by simp
  from C5_completeSale_failures [of shop_offline shop_backend "''10:15:00''" "''2024-05-01''"
      fetch_failed "remote shop_offline"] h2 h3
  have c2: "completeSale shop_backend ''10:15:00'' ''2024-05-01'' shop_offline =
     (Inl (Postgrest fetch_failed),
      shop_offline\<lparr>salesStore := (salesStore shop_offline)
                     \<lparr>error := Some ErrorCompletingSale, loading := False\<rparr>\<rparr>)"
    by (simp add: m)
  from h1 h2 h3 c1 c2 show ?thesis
    by simp
qed

section \<open>The recorded sale\<close>

text \<open>
  C8. After a successful \<^verbatim>\<open>completeSale\<close> the sale it returns, which is the new head of
  the sales collection, carries the total, the subtotal, the tax (8 percent of the
  subtotal) and the discount of the draft as they were at the call; and the header row
  whose insertion succeeded, and whose id the sale bears, carries the same four values.
  How the database stores the row (its columns are DECIMAL(10,2)) is outside the model.
\<close>

theorem C8_sale_matches_draft:
  assumes "completeSale be t d w = (Inr sale, w')"
  shows "sale_total sale = currentSaleTotal w \<and>
         sale_subtotal sale = currentSaleSubtotal w \<and>
         sale_tax sale = currentSaleSubtotal w * 0.08 \<and>
         sale_discount sale = discount (currentSale (salesStore w)) \<and>
         sales (salesStore w') = sale # sales (salesStore w) \<and>
         (\<exists>row db1. insert_sales be (saleInsert w) (remote w) = (Inr row, db1) \<and>
                    sale_id sale = dbs_id row) \<and>
         ins_total (saleInsert w) = currentSaleTotal w \<and>
         ins_subtotal (saleInsert w) = currentSaleSubtotal w \<and>
         ins_tax (saleInsert w) = currentSaleSubtotal w * 0.08 \<and>
         ins_discount (saleInsert w) = discount (currentSale (salesStore w))"
proof -
  let ?w1 = "\<lambda>db. w\<lparr>salesStore := (salesStore w)\<lparr>loading := True, error := None\<rparr>, remote := db\<rparr>"
  from completeSale_success [OF assms] obtain row db1 db2 w3 where
    ins: "insert_sales be (saleInsert w) (remote w) = (Inr row, db1)" and
    loop: "updateStocks be (cart w) (?w1 db2) = (Inr (), w3)" and
    sale: "sale_id sale = dbs_id row" "sale_total sale = currentSaleTotal w"
          "sale_subtotal sale = currentSaleSubtotal w"
          "sale_tax sale = currentSaleSubtotal w * 0.08"
          "sale_discount sale = discount (currentSale (salesStore w3))" and
    w': "w' = w3\<lparr>salesStore := (salesStore w3)
                  \<lparr>sales := sale # sales (salesStore w3), currentSale := empty_draft,
                   loading := False\<rparr>\<rparr>"
    by blast
  from updateStocks_salesStore [of be "cart w" "?w1 db2"] loop
  have s3: "salesStore w3 = (salesStore w)\<lparr>loading := True, error := None\<rparr>"
    by simp
  have "ins_total (saleInsert w) = currentSaleTotal w \<and>
        ins_subtotal (saleInsert w) = currentSaleSubtotal w \<and>
        ins_tax (saleInsert w) = currentSaleSubtotal w * 0.08 \<and>
        ins_discount (saleInsert w) = discount (currentSale (salesStore w))"
    by (simp add: saleInsert_def currentSaleTotal_def Let_def)
  with ins sale w' s3 show ?thesis
    by auto
qed

text \<open>
  The scenario of the specification: one line of three copies at 10.00 and discount 10
  give the sale subtotal 30.00, tax 2.40, discount 10 and total 29.40.
\<close>

theorem C8_sale_matches_draft_witness:
  "(\<exists>sale w'. completeSale shop_backend ''10:15:00'' ''2024-05-01'' shop_discounted = (Inr sale, w') \<and>
       sale_total sale = 29.4 \<and> sale_subtotal sale = 30 \<and> sale_tax sale = 2.4 \<and>
       sale_discount sale = 10 \<and> sales (salesStore w') = [sale]) \<and>
   currentSaleTotal shop_discounted = 29.4 \<and> currentSaleSubtotal shop_discounted = 30 \<and>
   discount (currentSale (salesStore shop_discounted)) = 10"
proof -
  have "\<exists>sale w'. completeSale shop_backend ''10:15:00'' ''2024-05-01'' shop_discounted =
          (Inr sale, w')"
    by (simp add: example_defs sale_defs)
  then obtain sale w' where
    ok: "completeSale shop_backend ''10:15:00'' ''2024-05-01'' shop_discounted = (Inr sale, w')"
    by blast
  have draft: "currentSaleTotal shop_discounted = 29.4 \<and>
               currentSaleSubtotal shop_discounted = 30 \<and>
               discount (currentSale (salesStore shop_discounted)) = 10 \<and>
               sales (salesStore shop_discounted) = []"
    by (simp add: example_defs currentSaleTotal_def currentSaleSubtotal_def)
  from C8_sale_matches_draft [OF ok] draft
  have "sale_total sale = 29.4 \<and> sale_subtotal sale = 30 \<and> sale_tax sale = 2.4 \<and>
        sale_discount sale = 10 \<and> sales (salesStore w') = [sale]"
    by simp
  with ok draft show ?thesis
    by blast
qed

section \<open>Lines whose book is not in the catalog\<close>

lemma getBookById_sales_remote:
  "getBookById (w\<lparr>salesStore := s, remote := db\<rparr>) j = getBookById w j"
  by (simp add: getBookById_def)

text \<open>
  C9. For a book id that is not in the in-memory catalog, \<^verbatim>\<open>updateStock\<close> returns
  without an error and the world after the call is the world before it, whatever the
  delta. Hence, the database answering an update with the row it wrote, the stock loop
  of \<^verbatim>\<open>completeSale\<close> does for a draft what it does for the lines whose book is in the
  catalog, and \<^verbatim>\<open>completeSale\<close> records every draft, lines of missing books and all,
  whenever the two insertions and the stock updates of the other lines succeed: the
  sale it returns has all the lines of the draft and heads the sales collection, the
  draft is cleared, the book store and the database are as the stock updates of the
  other lines left them, and the books of the missing lines are still missing. When
  every line references a missing book the sale is recorded as soon as the two
  insertions succeed, with the book store untouched, whatever the database answers to
  updates.
\<close>

theorem C9_missing_book_is_skipped:
  "(getBookById w i = None \<longrightarrow> updateStock be i delta w = (Inr (), w)) \<and>
   (returns_updated_row be \<longrightarrow>
      updateStocks be its v =
      updateStocks be (filter (\<lambda>it. getBookById v (bookId it) \<noteq> None) its) v) \<and>
   (returns_updated_row be \<and> cart u \<noteq> [] \<and>
    insert_sales be (saleInsert u) (remote u) = (Inr row, db1) \<and>
    insert_sale_items be (itemsRows_of row (cart u)) db1 = (None, db2) \<and>
    updateStocks be (filter (\<lambda>it. getBookById u (bookId it) \<noteq> None) (cart u))
      (u\<lparr>salesStore := (salesStore u)\<lparr>loading := True, error := None\<rparr>, remote := db2\<rparr>)
      = (Inr (), w3) \<longrightarrow>
      (\<exists>sale w'. completeSale be t d u = (Inr sale, w') \<and>
                 sale_items sale = cart u \<and>
                 sales (salesStore w') = sale # sales (salesStore u) \<and>
                 cart w' = [] \<and>
                 booksStore w' = booksStore w3 \<and> remote w' = remote w3 \<and>
                 (\<forall>line \<in> set (cart u). getBookById u (bookId line) = None \<longrightarrow>
                    getBookById w' (bookId line) = None))) \<and>
   (cart x \<noteq> [] \<and> (\<forall>it \<in> set (cart x). getBookById x (bookId it) = None) \<and>
    insert_sales be (saleInsert x) (remote x) = (Inr row', db1') \<and>
    insert_sale_items be (itemsRows_of row' (cart x)) db1' = (None, db2') \<longrightarrow>
      (\<exists>sale w'. completeSale be t d x = (Inr sale, w') \<and>
                 sale_items sale = cart x \<and>
                 sales (salesStore w') = sale # sales (salesStore x) \<and>
                 booksStore w' = booksStore x \<and> remote w' = db2'))"
proof (intro conjI impI; (elim conjE)?)
  assume "getBookById w i = None"
  then show "updateStock be i delta w = (Inr (), w)"
    by (rule updateStock_missing)
next
  assume "returns_updated_row be"
  then show "updateStocks be its v =
             updateStocks be (filter (\<lambda>it. getBookById v (bookId it) \<noteq> None) its) v"
    by (rule updateStocks_skip_missing)
next
  let ?u1 = "u\<lparr>salesStore := (salesStore u)\<lparr>loading := True, error := None\<rparr>, remote := db2\<rparr>"
  assume echo: "returns_updated_row be"
    and ne: "cart u \<noteq> []"
    and ins: "insert_sales be (saleInsert u) (remote u) = (Inr row, db1)"
    and rows: "insert_sale_items be (itemsRows_of row (cart u)) db1 = (None, db2)"
    and present: "updateStocks be (filter (\<lambda>it. getBookById u (bookId it) \<noteq> None) (cart u)) ?u1
                    = (Inr (), w3)"
  have "updateStocks be (cart u) ?u1 =
        updateStocks be (filter (\<lambda>it. getBookById ?u1 (bookId it) \<noteq> None) (cart u)) ?u1"
    using echo by (rule updateStocks_skip_missing)
  with present have loop: "updateStocks be (cart u) ?u1 = (Inr (), w3)"
    by (simp add: getBookById_sales_remote)
  from updateStocks_salesStore [of be "cart u" ?u1] loop
  have s3: "salesStore w3 = (salesStore u)\<lparr>loading := True, error := None\<rparr>"
    by simp
  from updateStocks_ids [OF echo, of "cart u" ?u1] loop
  have ids: "map book_id (books (booksStore w3)) = map book_id (books (booksStore u))"
    by simp
  have still: "getBookById w3 j = None" if "getBookById u j = None" for j
    using that ids by (simp add: getBookById_None_iff)
  from ne ins rows loop s3 still
  show "\<exists>sale w'. completeSale be t d u = (Inr sale, w') \<and>
                 sale_items sale = cart u \<and>
                 sales (salesStore w') = sale # sales (salesStore u) \<and>
                 cart w' = [] \<and>
                 booksStore w' = booksStore w3 \<and> remote w' = remote w3 \<and>
                 (\<forall>line \<in> set (cart u). getBookById u (bookId line) = None \<longrightarrow>
                    getBookById w' (bookId line) = None)"
    by (simp add: completeSale_nonempty cart_def empty_draft_def getBookById_def)
next
  let ?x1 = "x\<lparr>salesStore := (salesStore x)\<lparr>loading := True, error := None\<rparr>, remote := db2'\<rparr>"
  assume ne: "cart x \<noteq> []"
    and missing: "\<forall>it \<in> set (cart x). getBookById x (bookId it) = None"
    and ins: "insert_sales be (saleInsert x) (remote x) = (Inr row', db1')"
    and rows: "insert_sale_items be (itemsRows_of row' (cart x)) db1' = (None, db2')"
  from missing have "\<forall>it \<in> set (cart x). getBookById ?x1 (bookId it) = None"
    by (simp add: getBookById_def)
  then have "updateStocks be (cart x) ?x1 = (Inr (), ?x1)"
    by (rule updateStocks_all_missing)
  with ne ins rows
  show "\<exists>sale w'. completeSale be t d x = (Inr sale, w') \<and>
                 sale_items sale = cart x \<and>
                 sales (salesStore w') = sale # sales (salesStore x) \<and>
                 booksStore w' = booksStore x \<and> remote w' = db2'"
    by (simp add: completeSale_nonempty cart_def)
qed

text \<open>
  B9 is not in the catalog. The draft with a line for B9 and a line for one copy of B2
  becomes a sale with both lines; B2 goes from three copies to two, B1 keeps its one
  copy and B9 is still missing. The draft with the line for B9 alone becomes a sale and
  leaves the book store as it was.
\<close>

theorem C9_missing_book_witness:
  "getBookById shop ''B9'' = None \<and>
   updateStock shop_backend ''B9'' (- 2) shop = (Inr (), shop) \<and>
   returns_updated_row shop_backend \<and>
   cart shop_ghost_mixed = [line_B9, line_B2_old] \<and>
   getBookById shop_ghost_mixed (bookId line_B9) = None \<and>
   filter (\<lambda>it. getBookById shop_ghost_mixed (bookId it) \<noteq> None) [line_B9, line_B2_old]
     = [line_B2_old] \<and>
   updateStocks shop_backend [line_B9, line_B2_old] shop_ghost_mixed =
     updateStocks shop_backend [line_B2_old] shop_ghost_mixed \<and>
   (\<exists>sale w'. completeSale shop_backend ''10:15:00'' ''2024-05-01'' shop_ghost_mixed =
                 (Inr sale, w') \<and>
      sale_items sale = [line_B9, line_B2_old] \<and> sales (salesStore w') = [sale] \<and>
      cart w' = [] \<and>
      map (\<lambda>b. (book_id b, book_stock b)) (books (booksStore w')) = [(''B1'', 1), (''B2'', 2)] \<and>
      getBookById w' (bookId line_B9) = None) \<and>
   cart shop_ghost = [line_B9] \<and>
   getBookById shop_ghost (bookId line_B9) = None \<and>
   (\<exists>sale w'. completeSale shop_backend ''10:15:00'' ''2024-05-01'' shop_ghost =
                 (Inr sale, w') \<and>
      sale_items sale = [line_B9] \<and> sales (salesStore w') = [sale] \<and>
      booksStore w' = booksStore shop)"
proof -
  let ?mixed1 = "\<lambda>db. shop_ghost_mixed
      \<lparr>salesStore := (salesStore shop_ghost_mixed)\<lparr>loading := True, error := None\<rparr>,
       remote := db\<rparr>"
  have a: "getBookById shop ''B9'' = None"
    by (simp add: example_defs)
  have echo: "returns_updated_row shop_backend"
    by (rule shop_backend_returns_updated_row)
  have cm: "cart shop_ghost_mixed = [line_B9, line_B2_old]"
    by (simp add: example_defs shop_ghost_mixed_def)
  have nem: "cart shop_ghost_mixed \<noteq> []"
    by (simp add: cm)
  have stm: "sales (salesStore shop_ghost_mixed) = []"
    by (simp add: shop_ghost_mixed_def) (simp add: shop_def)
  have mm: "getBookById shop_ghost_mixed (bookId line_B9) = None"
    by (simp add: example_defs shop_ghost_mixed_def line_B9_def)
  have f: "filter (\<lambda>it. getBookById shop_ghost_mixed (bookId it) \<noteq> None) [line_B9, line_B2_old]
             = [line_B2_old]"
    by (simp add: example_defs shop_ghost_mixed_def line_B9_def)
  have "\<exists>row db1. insert_sales shop_backend (saleInsert shop_ghost_mixed)
                       (remote shop_ghost_mixed) = (Inr row, db1) \<and>
          (\<exists>db2. insert_sale_items shop_backend (itemsRows_of row (cart shop_ghost_mixed)) db1
                    = (None, db2) \<and>
             (\<exists>w3. updateStocks shop_backend [line_B2_old] (?mixed1 db2) = (Inr (), w3) \<and>
                map (\<lambda>b. (book_id b, book_stock b)) (books (booksStore w3))
                  = [(''B1'', 1), (''B2'', 2)]))"
    by (simp add: example_defs sale_defs)
  then obtain rowm db1m db2m w3m where
    i1m: "insert_sales shop_backend (saleInsert shop_ghost_mixed) (remote shop_ghost_mixed)
            = (Inr rowm, db1m)" and
    i2m: "insert_sale_items shop_backend (itemsRows_of rowm (cart shop_ghost_mixed)) db1m
            = (None, db2m)" and
    loopm: "updateStocks shop_backend [line_B2_old] (?mixed1 db2m) = (Inr (), w3m)" and
    stocks: "map (\<lambda>b. (book_id b, book_stock b)) (books (booksStore w3m))
               = [(''B1'', 1), (''B2'', 2)]"
    by (elim exE conjE) (rule that)
  have c: "cart shop_ghost = [line_B9]"
    by (simp add: example_defs shop_ghost_def)
  have ne: "cart shop_ghost \<noteq> []"
    by (simp add: c)
  have m: "\<forall>it \<in> set (cart shop_ghost). getBookById shop_ghost (bookId it) = None"
    by (simp add: c) (simp add: example_defs shop_ghost_def line_B9_def)
  have st: "sales (salesStore shop_ghost) = [] \<and> booksStore shop_ghost = booksStore shop"
    by (simp add: shop_ghost_def) (simp add: shop_def)
  have "\<exists>row db1. insert_sales shop_backend (saleInsert shop_ghost) (remote shop_ghost)
                      = (Inr row, db1) \<and>
          (\<exists>db2. insert_sale_items shop_backend (itemsRows_of row (cart shop_ghost)) db1
                    = (None, db2))"
    by (simp add: example_defs sale_defs)
  then obtain row db1 db2 where
    i1: "insert_sales shop_backend (saleInsert shop_ghost) (remote shop_ghost) = (Inr row, db1)" and
    i2: "insert_sale_items shop_backend (itemsRows_of row (cart shop_ghost)) db1 = (None, db2)"
    by (elim exE conjE) (rule that)
  note inst = C9_missing_book_is_skipped [of shop "''B9''" shop_backend "- 2"
      "[line_B9, line_B2_old]" shop_ghost_mixed shop_ghost_mixed rowm db1m db2m w3m
      "''10:15:00''" "''2024-05-01''" shop_ghost row db1 db2]
  from inst a have c1: "updateStock shop_backend ''B9'' (- 2) shop = (Inr (), shop)"
    by simp
  from inst echo
  have c2: "updateStocks shop_backend [line_B9, line_B2_old] shop_ghost_mixed =
            updateStocks shop_backend [line_B2_old] shop_ghost_mixed"
    by (simp only: f)
  from loopm have loopm': "updateStocks shop_backend
      (filter (\<lambda>it. getBookById shop_ghost_mixed (bookId it) \<noteq> None) (cart shop_ghost_mixed))
      (?mixed1 db2m) = (Inr (), w3m)"
    by (simp only: cm f)
  from inst echo nem i1m i2m loopm'
  obtain sale w' where
    ok: "completeSale shop_backend ''10:15:00'' ''2024-05-01'' shop_ghost_mixed = (Inr sale, w')"
    and res: "sale_items sale = cart shop_ghost_mixed"
        "sales (salesStore w') = sale # sales (salesStore shop_ghost_mixed)"
        "cart w' = []" "booksStore w' = booksStore w3m"
    and gone: "\<forall>line \<in> set (cart shop_ghost_mixed).
                 getBookById shop_ghost_mixed (bookId line) = None \<longrightarrow>
                 getBookById w' (bookId line) = None"
    by blast
  from gone mm have gone9: "getBookById w' (bookId line_B9) = None"
    by (simp add: cm)
  from ok res gone9 stocks
  have c3: "\<exists>sale w'. completeSale shop_backend ''10:15:00'' ''2024-05-01'' shop_ghost_mixed =
                 (Inr sale, w') \<and>
      sale_items sale = [line_B9, line_B2_old] \<and> sales (salesStore w') = [sale] \<and>
      cart w' = [] \<and>
      map (\<lambda>b. (book_id b, book_stock b)) (books (booksStore w')) = [(''B1'', 1), (''B2'', 2)] \<and>
      getBookById w' (bookId line_B9) = None"
    by (simp add: cm stm)
  from inst ne m i1 i2
  have c4: "\<exists>sale w'. completeSale shop_backend ''10:15:00'' ''2024-05-01'' shop_ghost =
                       (Inr sale, w') \<and>
            sale_items sale = [line_B9] \<and> sales (salesStore w') = [sale] \<and>
            booksStore w' = booksStore shop"
    by (simp add: c st) blast
  from m have m': "getBookById shop_ghost (bookId line_B9) = None"
    by (simp add: c)
  from a c1 echo cm mm f c2 c3 c m' c4 show ?thesis
    by blast
qed

end
